theory Spec2Isabelle
  imports Complex_Main
begin

section \<open>The notebook's variables\<close>

text \<open>
  The notebook \<^verbatim>\<open>DL_AA_Section3.ipynb\<close> is straight-line Python over module-level
  variables, run cell by cell. Each code cell is modelled as a function from the
  variables bound before it to the variables bound after it; the records below are the
  namespace after cells 3, 5, 7, 9 and 11, each extending the one before, and their
  fields carry the names of the Python variables.

  The arithmetic is modelled twice, over the same records. In the exact model a Python
  \<^verbatim>\<open>float\<close> is a \<^typ>\<open>real\<close> and every operation is exact; \<open>step\<close> and \<open>train\<close> are the
  loop of cell 11 in this model, and the theorems about them are statements about the
  arithmetic the code writes down, carried out exactly. In the double model a
  \<^verbatim>\<open>float\<close> is an IEEE-754 binary64 value: \<open>fstep\<close> and \<open>ftrain\<close> are the same loop with
  every operation rounded to nearest (ties to even), overflow to infinity, NaN, and the
  OverflowError that Python's float power raises. Each theorem says which model it is
  about by the functions it names.

  The random source \<^verbatim>\<open>np.random\<close> is library code. It is a parameter of the model: a
  type \<open>'g\<close> of generator states, a function \<open>seed\<close> from the seed to the state it
  installs (\<^verbatim>\<open>np.random.seed\<close>), and a function \<open>randn\<close> that returns a sample and the
  next state (\<^verbatim>\<open>np.random.randn()\<close>).
\<close>

record 'a sample_vars =
  weight :: 'a
  bias :: 'a
  x :: 'a
  target :: 'a

record 'a forward_vars = "'a sample_vars" +
  "output" :: 'a
  loss :: 'a

record 'a backward_vars = "'a forward_vars" +
  error :: 'a
  grad_weight :: 'a
  grad_bias :: 'a

record 'a descent_vars = "'a backward_vars" +
  learning_rate :: 'a
  new_output :: 'a
  new_loss :: 'a

record 'a train_vars = "'a descent_vars" +
  losses :: "'a list"

section \<open>The cells\<close>

text \<open>
  Cell 3:
  \<^verbatim>\<open>weight = np.random.randn(); bias = np.random.randn(); x = 3.0; target = 6.0\<close>
\<close>

definition initialize :: "('g \<Rightarrow> real \<times> 'g) \<Rightarrow> 'g \<Rightarrow> real sample_vars \<times> 'g" where
  "initialize randn g =
     (case randn g of (w, g1) \<Rightarrow>
      case randn g1 of (b, g2) \<Rightarrow>
        (\<lparr>weight = w, bias = b, x = 3, target = 6\<rparr>, g2))"

text \<open>
  Cell 5:
  \<^verbatim>\<open>output = weight * x + bias; loss = (output - target) ** 2\<close>
\<close>

definition forward_pass :: "real sample_vars \<Rightarrow> real forward_vars" where
  "forward_pass s =
     (let out = weight s * x s + bias s;
          l = (out - target s) ^ 2
      in \<lparr>weight = weight s, bias = bias s, x = x s, target = target s,
          output = out, loss = l\<rparr>)"

text \<open>
  Cell 7:
  \<^verbatim>\<open>error = output - target; grad_weight = 2 * error * x; grad_bias = 2 * error\<close>
\<close>

definition backward_pass :: "real forward_vars \<Rightarrow> real backward_vars" where
  "backward_pass s =
     (let e = output s - target s;
          gw = 2 * e * x s;
          gb = 2 * e
      in \<lparr>weight = weight s, bias = bias s, x = x s, target = target s,
          output = output s, loss = loss s,
          error = e, grad_weight = gw, grad_bias = gb\<rparr>)"

text \<open>
  Cell 9:
  \<^verbatim>\<open>learning_rate = 0.01\<close>
  \<^verbatim>\<open>weight = weight - learning_rate * grad_weight\<close>
  \<^verbatim>\<open>bias = bias - learning_rate * grad_bias\<close>
  \<^verbatim>\<open>new_output = weight * x + bias; new_loss = (new_output - target) ** 2\<close>
  The new prediction is computed from the weight and bias just assigned.
\<close>

definition gradient_descent :: "real backward_vars \<Rightarrow> real descent_vars" where
  "gradient_descent s =
     (let lr = 1 / 100;
          w = weight s - lr * grad_weight s;
          b = bias s - lr * grad_bias s;
          no = w * x s + b;
          nl = (no - target s) ^ 2
      in \<lparr>weight = w, bias = b, x = x s, target = target s,
          output = output s, loss = loss s,
          error = error s, grad_weight = grad_weight s, grad_bias = grad_bias s,
          learning_rate = lr, new_output = no, new_loss = nl\<rparr>)"

text \<open>
  Cell 11, the body of \<^verbatim>\<open>for i in range(100)\<close>, one assignment per line as in the
  source:
  \<^verbatim>\<open>output = weight * x + bias\<close>
  \<^verbatim>\<open>loss = (output - target) ** 2\<close>
  \<^verbatim>\<open>losses.append(loss)\<close>
  \<^verbatim>\<open>error = output - target\<close>
  \<^verbatim>\<open>grad_weight = 2 * error * x\<close>
  \<^verbatim>\<open>grad_bias = 2 * error\<close>
  \<^verbatim>\<open>weight -= learning_rate * grad_weight\<close>
  \<^verbatim>\<open>bias -= learning_rate * grad_bias\<close>
  The specification calls one pass of this body \<open>step\<close>.
\<close>

definition step :: "real train_vars \<Rightarrow> real train_vars" where
  "step s0 =
     (let s1 = s0\<lparr>output := weight s0 * x s0 + bias s0\<rparr>;
          s2 = s1\<lparr>loss := (output s1 - target s1) ^ 2\<rparr>;
          s3 = s2\<lparr>losses := losses s2 @ [loss s2]\<rparr>;
          s4 = s3\<lparr>error := output s3 - target s3\<rparr>;
          s5 = s4\<lparr>grad_weight := 2 * error s4 * x s4\<rparr>;
          s6 = s5\<lparr>grad_bias := 2 * error s5\<rparr>;
          s7 = s6\<lparr>weight := weight s6 - learning_rate s6 * grad_weight s6\<rparr>;
          s8 = s7\<lparr>bias := bias s7 - learning_rate s7 * grad_bias s7\<rparr>
      in s8)"

text \<open>\<^verbatim>\<open>for i in range(n)\<close> around the body; the loop variable is not used in it.\<close>

definition train :: "nat \<Rightarrow> real train_vars \<Rightarrow> real train_vars" where
  "train n s = fold (\<lambda>i. step) [0..<n] s"

text \<open>
  Cell 11 before the loop:
  \<^verbatim>\<open>weight = np.random.randn(); bias = np.random.randn(); losses = []\<close>
  Every other variable keeps the value the walkthrough cells left in it.
\<close>

definition reset :: "('g \<Rightarrow> real \<times> 'g) \<Rightarrow> 'g \<Rightarrow> real descent_vars \<Rightarrow> real train_vars \<times> 'g" where
  "reset randn g s =
     (case randn g of (w, g1) \<Rightarrow>
      case randn g1 of (b, g2) \<Rightarrow>
        (\<lparr>weight = w, bias = b, x = x s, target = target s,
          output = output s, loss = loss s,
          error = error s, grad_weight = grad_weight s, grad_bias = grad_bias s,
          learning_rate = learning_rate s, new_output = new_output s,
          new_loss = new_loss s, losses = []\<rparr>, g2))"

text \<open>
  The cells in order, from the generator state \<open>g\<close> that seeding installed.
  \<open>walkthrough\<close> is cells 3 to 9; \<open>loop_entry\<close> is the namespace when the loop of
  cell 11 starts; \<open>run\<close> returns the namespace after cell 3 (the initial weight and bias
  that are printed), after cell 9 (the walkthrough) and after cell 11 (the trace that is
  plotted, the final weight and bias). \<open>notebook\<close> is the run after
  \<^verbatim>\<open>np.random.seed(42)\<close>.
\<close>

definition walkthrough :: "('g \<Rightarrow> real \<times> 'g) \<Rightarrow> 'g \<Rightarrow> real sample_vars \<times> real descent_vars \<times> 'g" where
  "walkthrough randn g =
     (case initialize randn g of (s3, g2) \<Rightarrow>
        (s3, gradient_descent (backward_pass (forward_pass s3)), g2))"

definition loop_entry :: "('g \<Rightarrow> real \<times> 'g) \<Rightarrow> 'g \<Rightarrow> real train_vars" where
  "loop_entry randn g =
     (case walkthrough randn g of (s3, s9, g2) \<Rightarrow> fst (reset randn g2 s9))"

definition run :: "('g \<Rightarrow> real \<times> 'g) \<Rightarrow> 'g \<Rightarrow> real sample_vars \<times> real descent_vars \<times> real train_vars" where
  "run randn g =
     (case walkthrough randn g of (s3, s9, g2) \<Rightarrow>
        (s3, s9, train 100 (fst (reset randn g2 s9))))"

definition notebook :: "(nat \<Rightarrow> 'g) \<Rightarrow> ('g \<Rightarrow> real \<times> 'g) \<Rightarrow> real sample_vars \<times> real descent_vars \<times> real train_vars" where
  "notebook seed randn = run randn (seed 42)"

text \<open>
  The random source is a parameter, so two concrete ones are needed to run the model:
  \<open>replay\<close> is a generator whose state is the list of samples still to come, and
  \<open>draws n randn g\<close> is the list of the first \<open>n\<close> samples that the generator \<open>randn\<close>
  delivers from the state \<open>g\<close>.
\<close>

fun replay :: "real list \<Rightarrow> real \<times> real list" where
  "replay [] = (0, [])"
| "replay (v # vs) = (v, vs)"

fun draws :: "nat \<Rightarrow> ('g \<Rightarrow> real \<times> 'g) \<Rightarrow> 'g \<Rightarrow> real list" where
  "draws 0 randn g = []"
| "draws (Suc n) randn g = (case randn g of (v, g') \<Rightarrow> v # draws n randn g')"

text \<open>
  Four samples for concrete runs: the two that cell 3 prints as the initial weight and
  bias, and two for the reset of cell 11.
\<close>

definition sample_draws :: "real list" where
  "sample_draws = [0.497, - 0.138, 0.648, 1.523]"

text \<open>
  The state the specification's worked example starts from: the initial weight and bias
  as cell 3 prints them, \<^verbatim>\<open>0.497\<close> and \<^verbatim>\<open>-0.138\<close>, with the sample of cell 3.
\<close>

definition printed_start :: "real sample_vars" where
  "printed_start = \<lparr>weight = 0.497, bias = - 0.138, x = 3, target = 6\<rparr>"

section \<open>Double arithmetic\<close>

text \<open>
  A Python \<^verbatim>\<open>float\<close> is an IEEE-754 binary64 value: a finite number, an infinity or NaN.
  The two zeros are identified (Python's \<^verbatim>\<open>==\<close> does not tell them apart, and the program
  never divides), and so are the NaNs.
\<close>

datatype pyfloat = Finite real | PosInf | NegInf | NaN

datatype py_error = OverflowError

text \<open>
  Rounding to nearest, ties to even. \<open>half_even y\<close> is the integer nearest to \<open>y\<close>, the
  even one of the two when \<open>y\<close> is half way. \<open>ulp_exp r\<close> is the exponent of the unit in
  the last place of a double near \<open>r\<close>: 52 below the binary exponent of \<open>r\<close>, and never
  below -1074, where the subnormal numbers are. \<open>nearest r\<close> is \<open>r\<close> rounded to a multiple
  of that unit, with no bound on the exponent; \<open>rnd r\<close> is the double that an operation
  with the exact result \<open>r\<close> returns, an infinity when \<open>nearest r\<close> reaches \<open>2 ^ 1024\<close>.
\<close>

definition half_even :: "real \<Rightarrow> int" where
  "half_even y =
     (let f = \<lfloor>y\<rfloor>; d = y - of_int f
      in if d < 1 / 2 then f else if 1 / 2 < d then f + 1
         else if even f then f else f + 1)"

definition ulp_exp :: "real \<Rightarrow> int" where
  "ulp_exp r = max \<lfloor>log 2 \<bar>r\<bar>\<rfloor> (- 1022) - 52"

definition nearest :: "real \<Rightarrow> real" where
  "nearest r =
     (if r = 0 then 0
      else of_int (half_even (r / 2 powi ulp_exp r)) * 2 powi ulp_exp r)"

definition huge :: real where
  "huge = 2 ^ 1024"

definition rnd :: "real \<Rightarrow> pyfloat" where
  "rnd r =
     (if huge \<le> nearest r then PosInf
      else if nearest r \<le> - huge then NegInf
      else Finite (nearest r))"

text \<open>
  Python's \<^verbatim>\<open>+\<close>, \<^verbatim>\<open>-\<close> and \<^verbatim>\<open>*\<close> on floats never raise: they return the rounded result,
  an infinity on overflow, and NaN for \<^verbatim>\<open>inf - inf\<close> and \<^verbatim>\<open>0.0 * inf\<close>.
\<close>

fun fneg :: "pyfloat \<Rightarrow> pyfloat" where
  "fneg (Finite a) = Finite (- a)"
| "fneg PosInf = NegInf"
| "fneg NegInf = PosInf"
| "fneg NaN = NaN"

fun fadd :: "pyfloat \<Rightarrow> pyfloat \<Rightarrow> pyfloat" where
  "fadd (Finite a) (Finite b) = rnd (a + b)"
| "fadd NaN v = NaN"
| "fadd u NaN = NaN"
| "fadd PosInf NegInf = NaN"
| "fadd NegInf PosInf = NaN"
| "fadd PosInf v = PosInf"
| "fadd u PosInf = PosInf"
| "fadd NegInf v = NegInf"
| "fadd u NegInf = NegInf"

definition fsub :: "pyfloat \<Rightarrow> pyfloat \<Rightarrow> pyfloat" where
  "fsub u v = fadd u (fneg v)"

fun fmul :: "pyfloat \<Rightarrow> pyfloat \<Rightarrow> pyfloat" where
  "fmul (Finite a) (Finite b) = rnd (a * b)"
| "fmul NaN v = NaN"
| "fmul u NaN = NaN"
| "fmul (Finite a) PosInf = (if a = 0 then NaN else if 0 < a then PosInf else NegInf)"
| "fmul (Finite a) NegInf = (if a = 0 then NaN else if 0 < a then NegInf else PosInf)"
| "fmul PosInf (Finite b) = (if b = 0 then NaN else if 0 < b then PosInf else NegInf)"
| "fmul NegInf (Finite b) = (if b = 0 then NaN else if 0 < b then NegInf else PosInf)"
| "fmul PosInf PosInf = PosInf"
| "fmul PosInf NegInf = NegInf"
| "fmul NegInf PosInf = NegInf"
| "fmul NegInf NegInf = PosInf"

text \<open>
  \<^verbatim>\<open>v ** 2\<close> on a float is CPython's \<^verbatim>\<open>float_pow\<close>: NaN stays NaN, an infinity gives
  \<^verbatim>\<open>inf\<close>, and for a finite \<^verbatim>\<open>v\<close> the C function \<^verbatim>\<open>pow\<close> is called; when its result is
  beyond the double range Python raises \<^verbatim>\<open>OverflowError\<close>, and underflow to zero is not an
  error. In range the result is taken to be the correctly rounded square.
\<close>

fun fpow2 :: "pyfloat \<Rightarrow> py_error + pyfloat" where
  "fpow2 (Finite a) =
     (if huge \<le> nearest (a\<^sup>2) then Inl OverflowError else Inr (Finite (nearest (a\<^sup>2))))"
| "fpow2 PosInf = Inr PosInf"
| "fpow2 NegInf = Inr PosInf"
| "fpow2 NaN = Inr NaN"

text \<open>
  The body of the loop of cell 11 in double arithmetic, line by line as \<open>step\<close>. The
  integer \<^verbatim>\<open>2\<close> of \<^verbatim>\<open>2 * error\<close> is converted to the float \<^verbatim>\<open>2.0\<close>. When the second line
  raises, the rest of the body does not run: nothing is appended and no parameter is
  updated.
\<close>

definition fstep :: "pyfloat train_vars \<Rightarrow> py_error + pyfloat train_vars" where
  "fstep s0 =
     (let s1 = s0\<lparr>output := fadd (fmul (weight s0) (x s0)) (bias s0)\<rparr>
      in case fpow2 (fsub (output s1) (target s1)) of
           Inl e \<Rightarrow> Inl e
         | Inr l \<Rightarrow>
            (let s2 = s1\<lparr>loss := l\<rparr>;
                 s3 = s2\<lparr>losses := losses s2 @ [loss s2]\<rparr>;
                 s4 = s3\<lparr>error := fsub (output s3) (target s3)\<rparr>;
                 s5 = s4\<lparr>grad_weight := fmul (fmul (Finite 2) (error s4)) (x s4)\<rparr>;
                 s6 = s5\<lparr>grad_bias := fmul (Finite 2) (error s5)\<rparr>;
                 s7 = s6\<lparr>weight := fsub (weight s6) (fmul (learning_rate s6) (grad_weight s6))\<rparr>;
                 s8 = s7\<lparr>bias := fsub (bias s7) (fmul (learning_rate s7) (grad_bias s7))\<rparr>
             in Inr s8))"

text \<open>\<^verbatim>\<open>for i in range(n)\<close> around the body: the first error ends the loop.\<close>

fun ftrain :: "nat \<Rightarrow> pyfloat train_vars \<Rightarrow> py_error + pyfloat train_vars" where
  "ftrain 0 s = Inr s"
| "ftrain (Suc n) s = (case fstep s of Inl e \<Rightarrow> Inl e | Inr s' \<Rightarrow> ftrain n s')"

text \<open>
  A finite value is a double when rounding leaves it as it is; \<open>is_finite\<close> excludes the
  infinities and NaN.
\<close>

fun is_double :: "pyfloat \<Rightarrow> bool" where
  "is_double (Finite a) = (rnd a = Finite a)"
| "is_double v = True"

fun is_finite :: "pyfloat \<Rightarrow> bool" where
  "is_finite (Finite a) = True"
| "is_finite v = False"

text \<open>
  Inputs for concrete runs of the double model: \<open>entry w b xv t lr\<close> is a namespace at
  the entry of the loop with the given weight, bias, x, target and learning rate, an
  empty trace, and 0.0 in the variables that the body assigns before it reads them;
  \<open>tiny\<close> is the smallest positive double and \<open>big\<close> is the double \<open>2 ^ 600\<close>.
\<close>

definition entry :: "pyfloat \<Rightarrow> pyfloat \<Rightarrow> pyfloat \<Rightarrow> pyfloat \<Rightarrow> pyfloat \<Rightarrow> pyfloat train_vars" where
  "entry w b xv t lr =
     \<lparr>weight = w, bias = b, x = xv, target = t,
      output = Finite 0, loss = Finite 0,
      error = Finite 0, grad_weight = Finite 0, grad_bias = Finite 0,
      learning_rate = lr, new_output = Finite 0, new_loss = Finite 0, losses = []\<rparr>"

definition tiny :: real where
  "tiny = 1 / 2 ^ 1074"

definition big :: real where
  "big = 2 ^ 600"

section \<open>One training step, in exact arithmetic\<close>

lemma step_fields:
  "output (step s) = weight s * x s + bias s"
  "loss (step s) = (weight s * x s + bias s - target s)\<^sup>2"
  "error (step s) = weight s * x s + bias s - target s"
  "grad_weight (step s) = 2 * (weight s * x s + bias s - target s) * x s"
  "grad_bias (step s) = 2 * (weight s * x s + bias s - target s)"
  "weight (step s) = weight s - learning_rate s * (2 * (weight s * x s + bias s - target s) * x s)"
  "bias (step s) = bias s - learning_rate s * (2 * (weight s * x s + bias s - target s))"
  "losses (step s) = losses s @ [(weight s * x s + bias s - target s)\<^sup>2]"
  by (simp_all add: step_def Let_def)

lemma step_frame:
  "x (step s) = x s" "target (step s) = target s" "learning_rate (step s) = learning_rate s"
  "new_output (step s) = new_output s" "new_loss (step s) = new_loss s"
  by (simp_all add: step_def Let_def)

section \<open>The worked example\<close>

lemma forward_printed_start:
  "output (forward_pass printed_start) = 1.353"
  "loss (forward_pass printed_start) = 21.594609"
  by (simp_all add: forward_pass_def printed_start_def Let_def power2_eq_square)

lemma backward_printed_start:
  "error (backward_pass (forward_pass printed_start)) = - 4.647"
  "grad_weight (backward_pass (forward_pass printed_start)) = - 27.882"
  "grad_bias (backward_pass (forward_pass printed_start)) = - 9.294"
  by (simp_all add: backward_pass_def forward_pass_def printed_start_def Let_def)

lemma descent_printed_start:
  "learning_rate (gradient_descent (backward_pass (forward_pass printed_start))) = 0.01"
  "weight (gradient_descent (backward_pass (forward_pass printed_start))) = 0.77582"
  "bias (gradient_descent (backward_pass (forward_pass printed_start))) = - 0.04506"
  "loss (gradient_descent (backward_pass (forward_pass printed_start))) = 21.594609"
  "new_output (gradient_descent (backward_pass (forward_pass printed_start))) = 2.2824"
  "new_loss (gradient_descent (backward_pass (forward_pass printed_start))) = 13.82054976"
  by (simp_all add: gradient_descent_def backward_pass_def forward_pass_def printed_start_def
      Let_def power2_eq_square)

text \<open>
  C2, as stated, fails. For x = 3.0, target = 6.0, weight = 0.497, bias = -0.138 the loss
  that cell 5 computes is 21.594609. It is further than 0.005 from 21.60, so it is not
  21.60 at two decimal places, and so not at three either.
\<close>

theorem loss_not_21_60:
  "\<not> \<bar>loss (forward_pass printed_start) - 21.60\<bar> \<le> 0.005"
  by (simp add: forward_printed_start)

text \<open>
  C2, amended. For x = 3.0, target = 6.0, weight = 0.497, bias = -0.138, cells 5 and 7
  compute output = 1.353, loss = 21.594609 (21.59 at two decimal places), error = -4.647,
  grad_weight = -27.882 (-27.88 at two decimal places) and grad_bias = -9.294 (-9.29 at
  two decimal places).
\<close>

theorem worked_example_values:
  "output (forward_pass printed_start) = 1.353
   \<and> loss (forward_pass printed_start) = 21.594609
   \<and> \<bar>loss (forward_pass printed_start) - 21.59\<bar> \<le> 0.005
   \<and> error (backward_pass (forward_pass printed_start)) = - 4.647
   \<and> grad_weight (backward_pass (forward_pass printed_start)) = - 27.882
   \<and> \<bar>grad_weight (backward_pass (forward_pass printed_start)) - (- 27.88)\<bar> \<le> 0.005
   \<and> grad_bias (backward_pass (forward_pass printed_start)) = - 9.294
   \<and> \<bar>grad_bias (backward_pass (forward_pass printed_start)) - (- 9.29)\<bar> \<le> 0.005"
  by (simp add: forward_printed_start backward_printed_start)

text \<open>
  C3, as stated, fails in its figures. From weight = 0.497, bias = -0.138, x = 3.0,
  target = 6.0, the loss that cell 9 recomputes after its update is 13.82054976. It is
  further than 0.005 from 13.83, so it is not 13.83 at two decimal places.
\<close>

theorem new_loss_not_13_83:
  "\<not> \<bar>new_loss (gradient_descent (backward_pass (forward_pass printed_start))) - 13.83\<bar>
       \<le> 0.005"
  by (simp add: descent_printed_start)

text \<open>
  C3, amended. From weight = 0.497, bias = -0.138, x = 3.0, target = 6.0, the update of
  cell 9, whose learning rate is 0.01, yields weight = 0.77582 (0.776 at three decimal
  places) and bias = -0.04506 (-0.045 at three decimal places), and the loss recomputed
  at the updated parameters, 13.82054976, is strictly less than the loss at the old
  parameters, 21.594609 (13.82 < 21.59 at two decimal places).
\<close>

theorem one_update_from_printed_start:
  "learning_rate (gradient_descent (backward_pass (forward_pass printed_start))) = 0.01
   \<and> weight (gradient_descent (backward_pass (forward_pass printed_start))) = 0.77582
   \<and> \<bar>weight (gradient_descent (backward_pass (forward_pass printed_start))) - 0.776\<bar>
       \<le> 0.0005
   \<and> bias (gradient_descent (backward_pass (forward_pass printed_start))) = - 0.04506
   \<and> \<bar>bias (gradient_descent (backward_pass (forward_pass printed_start))) - (- 0.045)\<bar>
       \<le> 0.0005
   \<and> loss (gradient_descent (backward_pass (forward_pass printed_start))) = 21.594609
   \<and> new_loss (gradient_descent (backward_pass (forward_pass printed_start))) = 13.82054976
   \<and> new_loss (gradient_descent (backward_pass (forward_pass printed_start)))
       < loss (gradient_descent (backward_pass (forward_pass printed_start)))"
  by (simp add: descent_printed_start)

section \<open>The training loop\<close>

lemma train_0: "train 0 s = s"
  by (simp add: train_def)

lemma train_Suc: "train (Suc n) s = step (train n s)"
  by (simp add: train_def)

lemma train_funpow: "train n s = (step ^^ n) s"
  by (induction n) (simp_all add: train_0 train_Suc)

lemma train_frame:
  "x (train n s) = x s" "target (train n s) = target s"
  "learning_rate (train n s) = learning_rate s"
  by (induction n) (simp_all add: train_0 train_Suc step_frame)

lemma losses_train:
  "losses (train n s)
     = losses s @ map (\<lambda>i. (weight (train i s) * x s + bias (train i s) - target s)\<^sup>2) [0..<n]"
  by (induction n) (simp_all add: train_0 train_Suc step_fields train_frame)

lemma step_losses_unread:
  "step (s\<lparr>losses := l\<rparr>) = (step s)\<lparr>losses := l @ [loss (step s)]\<rparr>"
  by (simp add: step_def Let_def)

lemma loop_entry_draws:
  "weight (loop_entry randn g) = fst (randn (snd (randn (snd (randn g)))))"
  "bias (loop_entry randn g) = fst (randn (snd (randn (snd (randn (snd (randn g)))))))"
  by (simp_all add: loop_entry_def walkthrough_def initialize_def reset_def
      gradient_descent_def backward_pass_def forward_pass_def Let_def split: prod.splits)

lemma loop_entry_fields:
  "x (loop_entry randn g) = 3" "target (loop_entry randn g) = 6"
  "learning_rate (loop_entry randn g) = 0.01" "losses (loop_entry randn g) = []"
  by (simp_all add: loop_entry_def walkthrough_def initialize_def reset_def
      gradient_descent_def backward_pass_def forward_pass_def Let_def split: prod.splits)

lemma loop_entry_sample:
  "weight (loop_entry replay sample_draws) = 0.648"
  "bias (loop_entry replay sample_draws) = 1.523"
  by (simp_all add: loop_entry_draws sample_draws_def)

lemma run_trained: "snd (snd (run randn g)) = train 100 (loop_entry randn g)"
  by (simp add: run_def loop_entry_def split: prod.splits)

text \<open>
  C7. The loop of cell 11 runs the body exactly 100 times from the namespace the reset
  left, with x = 3.0, target = 6.0 and learning_rate = 0.01 in every iteration. The trace
  starts empty and ends with exactly 100 entries; entry i is the loss that iteration i
  computes from the weight and bias it starts with, before its update. Each iteration
  appends one entry to the trace and changes no earlier one, and the trace is never
  read: a step from any other trace computes the same values and appends the same loss.
\<close>

theorem training_trace:
  "(let e = loop_entry randn g; t = snd (snd (run randn g))
    in t = (step ^^ 100) e
     \<and> losses e = []
     \<and> length (losses t) = 100
     \<and> (\<forall>i<100. losses t ! i = loss ((step ^^ Suc i) e)
           \<and> loss ((step ^^ Suc i) e) = (weight ((step ^^ i) e) * 3 + bias ((step ^^ i) e) - 6)\<^sup>2
           \<and> losses ((step ^^ Suc i) e) = losses ((step ^^ i) e) @ [loss ((step ^^ Suc i) e)])
     \<and> (\<forall>i\<le>100. x ((step ^^ i) e) = 3 \<and> target ((step ^^ i) e) = 6
           \<and> learning_rate ((step ^^ i) e) = 0.01))
   \<and> (\<forall>s l. step (s\<lparr>losses := l\<rparr>) = (step s)\<lparr>losses := l @ [loss (step s)]\<rparr>)"
proof -
  let ?e = "loop_entry randn g"
  have t: "snd (snd (run randn g)) = (step ^^ 100) ?e"
    by (simp add: run_trained train_funpow)
  have tr: "losses (train 100 ?e)
      = map (\<lambda>i. (weight (train i ?e) * 3 + bias (train i ?e) - 6)\<^sup>2) [0..<100]"
    by (simp only: losses_train loop_entry_fields append_Nil)
  have len: "length (losses ((step ^^ 100) ?e)) = 100"
    using tr by (simp add: train_funpow)
  have nth: "losses ((step ^^ 100) ?e) ! i = loss ((step ^^ Suc i) ?e)
      \<and> loss ((step ^^ Suc i) ?e) = (weight ((step ^^ i) ?e) * 3 + bias ((step ^^ i) ?e) - 6)\<^sup>2
      \<and> losses ((step ^^ Suc i) ?e) = losses ((step ^^ i) ?e) @ [loss ((step ^^ Suc i) ?e)]"
    if "i < 100" for i
  proof -
    have "losses (train 100 ?e) ! i = (weight (train i ?e) * 3 + bias (train i ?e) - 6)\<^sup>2"
      using that by (simp only: tr nth_map length_upt nth_upt) simp
    moreover have "loss (train (Suc i) ?e) = (weight (train i ?e) * 3 + bias (train i ?e) - 6)\<^sup>2"
      by (simp add: train_Suc step_fields train_frame loop_entry_fields)
    moreover have "losses (train (Suc i) ?e) = losses (train i ?e) @ [loss (train (Suc i) ?e)]"
      by (simp add: train_Suc step_fields)
    ultimately show ?thesis by (simp only: train_funpow)
  qed
  have const: "x ((step ^^ i) ?e) = 3 \<and> target ((step ^^ i) ?e) = 6
      \<and> learning_rate ((step ^^ i) ?e) = 0.01" for i
    using train_frame [of i ?e] by (simp add: train_funpow loop_entry_fields)
  show ?thesis
    unfolding Let_def using t len nth const step_losses_unread
    by (simp add: loop_entry_fields)
qed

theorem training_trace_witness:
  "length (losses (snd (snd (run replay sample_draws)))) = 100
   \<and> (0::nat) < 100
   \<and> losses (snd (snd (run replay sample_draws))) ! 0 = 6.416089
   \<and> losses (step (loop_entry replay sample_draws)) = [6.416089]
   \<and> (100::nat) \<le> 100
   \<and> x (snd (snd (run replay sample_draws))) = 3
   \<and> target (snd (snd (run replay sample_draws))) = 6
   \<and> learning_rate (snd (snd (run replay sample_draws))) = 0.01"
proof -
  let ?e = "loop_entry replay sample_draws"
  let ?t = "snd (snd (run replay sample_draws))"
  note c = training_trace [of replay sample_draws, unfolded Let_def]
  from c have t: "?t = (step ^^ 100) ?e" and len: "length (losses ?t) = 100"
    by blast+
  from c have "(0::nat) < 100 \<longrightarrow> losses ?t ! 0 = loss ((step ^^ Suc 0) ?e)
      \<and> loss ((step ^^ Suc 0) ?e) = (weight ((step ^^ 0) ?e) * 3 + bias ((step ^^ 0) ?e) - 6)\<^sup>2
      \<and> losses ((step ^^ Suc 0) ?e) = losses ((step ^^ 0) ?e) @ [loss ((step ^^ Suc 0) ?e)]"
    by blast
  then have first: "losses ?t ! 0 = 6.416089" "losses (step ?e) = [6.416089]"
    by (simp_all add: loop_entry_fields loop_entry_sample power2_eq_square)
  from c have "(100::nat) \<le> 100 \<longrightarrow> x ((step ^^ 100) ?e) = 3 \<and> target ((step ^^ 100) ?e) = 6
      \<and> learning_rate ((step ^^ 100) ?e) = 0.01"
    by blast
  then have const: "x ?t = 3" "target ?t = 6" "learning_rate ?t = 0.01"
    by (simp_all add: t)
  from len first const show ?thesis by simp
qed

section \<open>The random source\<close>

lemma draws_4:
  "draws 4 randn g =
     [fst (randn g), fst (randn (snd (randn g))), fst (randn (snd (randn (snd (randn g))))),
      fst (randn (snd (randn (snd (randn (snd (randn g)))))))]"
  by (simp add: eval_nat_numeral split: prod.splits)

lemma run_draws:
  "run randn g =
     (let w1 = draws 4 randn g ! 0; b1 = draws 4 randn g ! 1;
          w2 = draws 4 randn g ! 2; b2 = draws 4 randn g ! 3;
          s3 = \<lparr>weight = w1, bias = b1, x = 3, target = 6\<rparr>;
          s9 = gradient_descent (backward_pass (forward_pass s3))
      in (s3, s9, train 100 (fst (reset replay [w2, b2] s9))))"
  by (simp add: draws_4 run_def walkthrough_def initialize_def reset_def Let_def
      split: prod.splits)

text \<open>
  C6. A step is a function of the namespace alone: it takes no generator, so nothing
  random happens inside it, and the trained namespace is 100 steps from the loop entry.
  The whole run consults the random source for four samples, two in cell 3 and two in
  the reset of cell 11. Two runs whose sources deliver the same four samples after
  seeding, in particular two runs of the same source seeded identically, have the same
  initial weight and bias, the same walkthrough and the same full loss trajectory.
\<close>

theorem equal_draws_equal_runs:
  assumes "draws 4 randn (seed 42) = draws 4 randn' (seed' 42)"
  shows "notebook seed randn = notebook seed' randn'
    \<and> snd (snd (notebook seed randn)) = (step ^^ 100) (loop_entry randn (seed 42))"
proof -
  have "notebook seed randn = notebook seed' randn'"
    unfolding notebook_def run_draws using assms by simp
  moreover have "snd (snd (notebook seed randn)) = (step ^^ 100) (loop_entry randn (seed 42))"
    by (simp add: notebook_def run_trained train_funpow)
  ultimately show ?thesis by simp
qed

theorem equal_draws_equal_runs_witness:
  "draws 4 replay ((\<lambda>n. sample_draws) 42) = draws 4 replay ((\<lambda>n. sample_draws @ [real n]) 42)
   \<and> notebook (\<lambda>n. sample_draws) replay = notebook (\<lambda>n. sample_draws @ [real n]) replay"
proof -
  have h: "draws 4 replay ((\<lambda>n. sample_draws) 42)
      = draws 4 replay ((\<lambda>n. sample_draws @ [real n]) 42)"
    by (simp add: draws_4 sample_draws_def)
  show ?thesis
    using h equal_draws_equal_runs
      [of replay "\<lambda>n. sample_draws" replay "\<lambda>n. sample_draws @ [real n]"]
    by simp
qed

section \<open>Fixed points and the contraction of the error\<close>

text \<open>
  C9. Every namespace on the solution line is a fixed point of the step: for any weight,
  bias, x, target and learning rate with weight * x + bias = target, the step computes
  loss = 0, grad_weight = 0 and grad_bias = 0 and leaves weight and bias as they were, so
  that weight * x + bias = target holds again after the step.
\<close>

theorem solution_line_fixed:
  assumes "weight s * x s + bias s = target s"
  shows "loss (step s) = 0 \<and> grad_weight (step s) = 0 \<and> grad_bias (step s) = 0
    \<and> weight (step s) = weight s \<and> bias (step s) = bias s
    \<and> weight (step s) * x (step s) + bias (step s) = target (step s)"
  using assms by (simp add: step_fields step_frame)

theorem solution_line_fixed_witness:
  "weight (loop_entry replay [0.497, - 0.138, 2, 0]) * x (loop_entry replay [0.497, - 0.138, 2, 0])
     + bias (loop_entry replay [0.497, - 0.138, 2, 0]) = target (loop_entry replay [0.497, - 0.138, 2, 0])
   \<and> loss (step (loop_entry replay [0.497, - 0.138, 2, 0])) = 0
   \<and> grad_weight (step (loop_entry replay [0.497, - 0.138, 2, 0])) = 0
   \<and> grad_bias (step (loop_entry replay [0.497, - 0.138, 2, 0])) = 0
   \<and> weight (step (loop_entry replay [0.497, - 0.138, 2, 0])) = 2
   \<and> bias (step (loop_entry replay [0.497, - 0.138, 2, 0])) = 0"
proof -
  let ?s = "loop_entry replay [0.497, - 0.138, 2, 0]"
  have h: "weight ?s * x ?s + bias ?s = target ?s"
    by (simp add: loop_entry_fields loop_entry_draws)
  show ?thesis
    using h solution_line_fixed [OF h] by (simp add: loop_entry_draws)
qed

lemma error_step_step:
  "error (step (step s)) = (1 - 2 * learning_rate s * ((x s)\<^sup>2 + 1)) * error (step s)"
  by (simp add: step_fields step_frame power2_eq_square algebra_simps)

lemma loss_is_error_squared: "loss (step s) = (error (step s))\<^sup>2"
  by (simp add: step_fields)

lemma reference_factor:
  assumes "x s = 3" "learning_rate s = 0.01"
  shows "1 - 2 * learning_rate s * ((x s)\<^sup>2 + 1) = 0.8"
    and "error (step (step s)) = 0.8 * error (step s)"
    and "loss (step (step s)) = 0.64 * loss (step s)"
proof -
  show f: "1 - 2 * learning_rate s * ((x s)\<^sup>2 + 1) = 0.8"
    by (simp add: assms)
  show e: "error (step (step s)) = 0.8 * error (step s)"
    using error_step_step [of s] by (simp only: f)
  show "loss (step (step s)) = 0.64 * loss (step s)"
    by (simp add: loss_is_error_squared e power_mult_distrib power2_eq_square)
qed

text \<open>
  C10. In exact real arithmetic, each step multiplies the error by the constant factor
  1 - 2 * learning_rate * (x^2 + 1). For the constants of the notebook, x = 3.0 and
  learning_rate = 0.01, the factor is exactly 0.8, so each iteration of the training
  loop multiplies the loss by exactly 0.64, and the loss strictly decreases whenever it
  is not zero.
\<close>

theorem error_contracts:
  "error (step (step s)) = (1 - 2 * learning_rate s * ((x s)\<^sup>2 + 1)) * error (step s)
   \<and> (x s = 3 \<and> learning_rate s = 0.01 \<longrightarrow>
        1 - 2 * learning_rate s * ((x s)\<^sup>2 + 1) = 0.8
        \<and> error (step (step s)) = 0.8 * error (step s)
        \<and> loss (step (step s)) = 0.64 * loss (step s)
        \<and> (loss (step s) \<noteq> 0 \<longrightarrow> loss (step (step s)) < loss (step s))
        \<and> (\<forall>n. loss (train (Suc (Suc n)) s) = 0.64 * loss (train (Suc n) s)))"
proof -
  have "1 - 2 * learning_rate s * ((x s)\<^sup>2 + 1) = 0.8
        \<and> error (step (step s)) = 0.8 * error (step s)
        \<and> loss (step (step s)) = 0.64 * loss (step s)
        \<and> (loss (step s) \<noteq> 0 \<longrightarrow> loss (step (step s)) < loss (step s))
        \<and> (\<forall>n. loss (train (Suc (Suc n)) s) = 0.64 * loss (train (Suc n) s))"
    if h: "x s = 3" "learning_rate s = 0.01"
  proof -
    note r = reference_factor [OF h]
    have "0 \<le> loss (step s)"
      by (simp add: loss_is_error_squared)
    then have dec: "loss (step s) \<noteq> 0 \<longrightarrow> loss (step (step s)) < loss (step s)"
      by (simp add: r(3))
    have "loss (train (Suc (Suc n)) s) = 0.64 * loss (train (Suc n) s)" for n
    proof -
      have "x (train n s) = 3" "learning_rate (train n s) = 0.01"
        by (simp_all add: train_frame h)
      then have "loss (step (step (train n s))) = 0.64 * loss (step (train n s))"
        by (rule reference_factor(3))
      then show ?thesis by (simp only: train_Suc)
    qed
    with r dec show ?thesis by simp
  qed
  with error_step_step [of s] show ?thesis by blast
qed

theorem error_contracts_witness:
  "x (loop_entry replay sample_draws) = 3 \<and> learning_rate (loop_entry replay sample_draws) = 0.01
   \<and> loss (step (loop_entry replay sample_draws)) = 6.416089
   \<and> loss (step (loop_entry replay sample_draws)) \<noteq> 0
   \<and> loss (step (step (loop_entry replay sample_draws))) = 4.10629696
   \<and> loss (step (step (loop_entry replay sample_draws))) < loss (step (loop_entry replay sample_draws))"
proof -
  let ?s = "loop_entry replay sample_draws"
  have h: "x ?s = 3 \<and> learning_rate ?s = 0.01" by (simp add: loop_entry_fields)
  have l: "loss (step ?s) = 6.416089"
    by (simp add: step_fields loop_entry_fields loop_entry_sample power2_eq_square)
  from error_contracts [of ?s] h have "loss (step (step ?s)) = 0.64 * loss (step ?s)"
    and "loss (step ?s) \<noteq> 0 \<longrightarrow> loss (step (step ?s)) < loss (step ?s)"
    by blast+
  with h l show ?thesis by simp
qed

text \<open>
  Outside the range where the factor contracts, that is for a learning rate that is not
  positive or is at least 1 / (x^2 + 1), the loss of the next step is not smaller.
\<close>

lemma loss_not_reduced:
  assumes "learning_rate s \<le> 0 \<or> 1 / ((x s)\<^sup>2 + 1) \<le> learning_rate s"
  shows "loss (step s) \<le> loss (step (step s))"
proof -
  let ?r = "1 - 2 * learning_rate s * ((x s)\<^sup>2 + 1)"
  have pos: "0 < (x s)\<^sup>2 + 1"
    by (simp add: add_nonneg_pos)
  have "1 \<le> \<bar>?r\<bar>"
  proof (cases "learning_rate s \<le> 0")
    case True
    then have "learning_rate s * ((x s)\<^sup>2 + 1) \<le> 0"
      using pos by (simp add: mult_nonpos_nonneg)
    then show ?thesis by simp
  next
    case False
    with assms have "1 / ((x s)\<^sup>2 + 1) \<le> learning_rate s" by simp
    then have "1 \<le> learning_rate s * ((x s)\<^sup>2 + 1)"
      using pos by (simp add: field_simps)
    then show ?thesis by simp
  qed
  then have "1 \<le> ?r\<^sup>2"
    by (metis abs_le_square_iff abs_one one_power2)
  then have "1 * (error (step s))\<^sup>2 \<le> ?r\<^sup>2 * (error (step s))\<^sup>2"
    by (intro mult_right_mono) simp_all
  then show ?thesis
    by (simp add: loss_is_error_squared error_step_step power_mult_distrib)
qed

section \<open>Convergence, in exact arithmetic\<close>

lemma residual_step:
  "weight (step s) * x s + bias (step s) - target s
     = (1 - 2 * learning_rate s * ((x s)\<^sup>2 + 1)) * (weight s * x s + bias s - target s)"
  by (simp add: step_fields power2_eq_square algebra_simps)

lemma residual_train:
  "weight (train n s) * x s + bias (train n s) - target s
     = (1 - 2 * learning_rate s * ((x s)\<^sup>2 + 1)) ^ n * (weight s * x s + bias s - target s)"
proof (induction n)
  case 0
  show ?case by (simp add: train_0)
next
  case (Suc n)
  have "weight (train (Suc n) s) * x s + bias (train (Suc n) s) - target s
      = weight (step (train n s)) * x (train n s) + bias (step (train n s)) - target (train n s)"
    by (simp add: train_Suc train_frame)
  also have "\<dots> = (1 - 2 * learning_rate s * ((x s)\<^sup>2 + 1))
                 * (weight (train n s) * x s + bias (train n s) - target s)"
    using residual_step [of "train n s"] by (simp add: train_frame)
  finally show ?case by (simp add: Suc.IH)
qed

lemma weight_train:
  "weight (train n s)
     = weight s - x s * (weight s * x s + bias s - target s)
                  * (1 - (1 - 2 * learning_rate s * ((x s)\<^sup>2 + 1)) ^ n) / ((x s)\<^sup>2 + 1)"
proof (induction n)
  case 0
  show ?case by (simp add: train_0)
next
  case (Suc n)
  have nz: "(x s)\<^sup>2 + 1 \<noteq> 0"
    using sum_power2_eq_zero_iff [of "x s" 1] by simp
  have "weight (train (Suc n) s)
      = weight (train n s)
        - learning_rate s * (2 * (weight (train n s) * x s + bias (train n s) - target s) * x s)"
    by (simp add: train_Suc step_fields train_frame)
  also have "\<dots> = weight (train n s)
        - learning_rate s * (2 * ((1 - 2 * learning_rate s * ((x s)\<^sup>2 + 1)) ^ n
            * (weight s * x s + bias s - target s)) * x s)"
    by (simp only: residual_train)
  finally show ?case using nz
    by (simp add: Suc.IH field_simps)
qed

lemma bias_train:
  "bias (train n s)
     = bias s - (weight s * x s + bias s - target s)
                  * (1 - (1 - 2 * learning_rate s * ((x s)\<^sup>2 + 1)) ^ n) / ((x s)\<^sup>2 + 1)"
proof (induction n)
  case 0
  show ?case by (simp add: train_0)
next
  case (Suc n)
  have nz: "(x s)\<^sup>2 + 1 \<noteq> 0"
    using sum_power2_eq_zero_iff [of "x s" 1] by simp
  have "bias (train (Suc n) s)
      = bias (train n s)
        - learning_rate s * (2 * (weight (train n s) * x s + bias (train n s) - target s))"
    by (simp add: train_Suc step_fields train_frame)
  also have "\<dots> = bias (train n s)
        - learning_rate s * (2 * ((1 - 2 * learning_rate s * ((x s)\<^sup>2 + 1)) ^ n
            * (weight s * x s + bias s - target s)))"
    by (simp only: residual_train)
  finally show ?case using nz
    by (simp add: Suc.IH field_simps)
qed

lemma loss_train:
  "loss (train (Suc n) s)
     = ((1 - 2 * learning_rate s * ((x s)\<^sup>2 + 1)) ^ n * (weight s * x s + bias s - target s))\<^sup>2"
  using residual_train [of n s] by (simp add: train_Suc step_fields train_frame)

lemma factor_tendsto_0:
  assumes "0 < lr" "lr < 1 / 10"
  shows "(\<lambda>n. (1 - 2 * lr * (3\<^sup>2 + 1)) ^ n) \<longlonglongrightarrow> (0::real)"
proof -
  have "norm (1 - 2 * lr * (3\<^sup>2 + 1)) < 1"
    using assms by (simp add: abs_if)
  then show ?thesis by (rule LIMSEQ_power_zero)
qed

text \<open>
  C4, amended. In exact real arithmetic, for the fixed sample (x, target) = (3.0, 6.0)
  and every positive learning rate below 1/10, iterating the step makes the loss tend to
  0 and the prediction weight * x + bias tend to the target. The weight and the bias
  converge too: to the point of the line weight * 3 + bias = 6 that is reached from the
  initial pair along the direction (3, 1). Which point that is depends on the initial
  pair; it is (2, 0) exactly when the initial pair satisfies weight - 2 = 3 * bias.
\<close>

theorem training_converges:
  assumes "x s = 3" "target s = 6" "0 < learning_rate s" "learning_rate s < 1 / 10"
  shows "(\<lambda>n. loss (train (Suc n) s)) \<longlonglongrightarrow> 0
    \<and> (\<lambda>n. weight (train n s) * x s + bias (train n s)) \<longlonglongrightarrow> target s
    \<and> (\<lambda>n. weight (train n s)) \<longlonglongrightarrow> weight s - 3 * (weight s * 3 + bias s - 6) / 10
    \<and> (\<lambda>n. bias (train n s)) \<longlonglongrightarrow> bias s - (weight s * 3 + bias s - 6) / 10
    \<and> (weight s - 3 * (weight s * 3 + bias s - 6) / 10) * 3
        + (bias s - (weight s * 3 + bias s - 6) / 10) = 6
    \<and> ((weight s - 3 * (weight s * 3 + bias s - 6) / 10 = 2
         \<and> bias s - (weight s * 3 + bias s - 6) / 10 = 0) = (weight s - 2 = 3 * bias s))"
proof -
  let ?r = "1 - 2 * learning_rate s * (3\<^sup>2 + 1)"
  let ?e = "weight s * 3 + bias s - 6"
  have r: "(\<lambda>n. ?r ^ n) \<longlonglongrightarrow> 0"
    using assms(3,4) by (rule factor_tendsto_0)
  have "(\<lambda>n. (?r ^ n * ?e)\<^sup>2) \<longlonglongrightarrow> (0 * ?e)\<^sup>2"
    by (intro tendsto_intros r)
  then have l: "(\<lambda>n. loss (train (Suc n) s)) \<longlonglongrightarrow> 0"
    by (simp add: loss_train assms(1,2))
  have "(\<lambda>n. ?r ^ n * ?e + 6) \<longlonglongrightarrow> 0 * ?e + 6"
    by (intro tendsto_intros r)
  moreover have "weight (train n s) * x s + bias (train n s) = ?r ^ n * ?e + 6" for n
    using residual_train [of n s] by (simp add: assms(1,2))
  ultimately have p: "(\<lambda>n. weight (train n s) * x s + bias (train n s)) \<longlonglongrightarrow> target s"
    by (simp add: assms(2))
  have "(\<lambda>n. weight s - 3 * ?e * (1 - ?r ^ n) / (3\<^sup>2 + 1))
          \<longlonglongrightarrow> weight s - 3 * ?e * (1 - 0) / (3\<^sup>2 + 1)"
    by (intro tendsto_intros r) simp
  then have w: "(\<lambda>n. weight (train n s)) \<longlonglongrightarrow> weight s - 3 * ?e / 10"
    by (simp add: weight_train assms(1,2))
  have "(\<lambda>n. bias s - ?e * (1 - ?r ^ n) / (3\<^sup>2 + 1))
          \<longlonglongrightarrow> bias s - ?e * (1 - 0) / (3\<^sup>2 + 1)"
    by (intro tendsto_intros r) simp
  then have b: "(\<lambda>n. bias (train n s)) \<longlonglongrightarrow> bias s - ?e / 10"
    by (simp add: bias_train assms(1,2))
  have line: "(weight s - 3 * ?e / 10) * 3 + (bias s - ?e / 10) = 6"
    by (simp add: field_simps)
  have iff: "(weight s - 3 * ?e / 10 = 2 \<and> bias s - ?e / 10 = 0) = (weight s - 2 = 3 * bias s)"
    by (auto simp: field_simps)
  from l p w b line iff show ?thesis by simp
qed

theorem training_converges_witness:
  "x (loop_entry replay sample_draws) = 3 \<and> target (loop_entry replay sample_draws) = 6
   \<and> 0 < learning_rate (loop_entry replay sample_draws)
   \<and> learning_rate (loop_entry replay sample_draws) < 1 / 10
   \<and> (\<lambda>n. loss (train (Suc n) (loop_entry replay sample_draws))) \<longlonglongrightarrow> 0
   \<and> (\<lambda>n. weight (train n (loop_entry replay sample_draws))) \<longlonglongrightarrow> 1.4079
   \<and> (\<lambda>n. bias (train n (loop_entry replay sample_draws))) \<longlonglongrightarrow> 1.7763
   \<and> (1.4079::real) * 3 + 1.7763 = 6"
proof -
  let ?s = "loop_entry replay sample_draws"
  have h: "x ?s = 3" "target ?s = 6" "0 < learning_rate ?s" "learning_rate ?s < 1 / 10"
    by (simp_all add: loop_entry_fields)
  show ?thesis
    using h training_converges [OF h] by (simp add: loop_entry_sample)
qed

section \<open>Rounding\<close>

lemma half_even_eq:
  "of_int m - 1 / 2 < y \<Longrightarrow> y < of_int m + 1 / 2 \<Longrightarrow> half_even y = m"
proof -
  assume a: "of_int m - 1 / 2 < y" "y < of_int m + 1 / 2"
  have "\<lfloor>y\<rfloor> = m \<or> \<lfloor>y\<rfloor> = m - 1"
    using a by linarith
  then show ?thesis
  proof
    assume f: "\<lfloor>y\<rfloor> = m"
    then have "y - of_int m < 1 / 2" using a by simp
    then show ?thesis by (simp add: half_even_def f Let_def)
  next
    assume f: "\<lfloor>y\<rfloor> = m - 1"
    then have "1 / 2 < y - of_int (m - 1)" using a by simp
    then show ?thesis by (simp add: half_even_def f Let_def)
  qed
qed

lemma log2_floor:
  assumes "2 powi e \<le> \<bar>r\<bar>" "\<bar>r\<bar> < 2 powi (e + 1)"
  shows "\<lfloor>log 2 \<bar>r\<bar>\<rfloor> = e"
proof -
  have "(0::real) < 2 powi e" by simp
  with assms(1) have pos: "0 < \<bar>r\<bar>" by linarith
  have a: "2 powr of_int e = (2::real) powi e"
    by (simp add: powr_real_of_int')
  have b: "2 powr (of_int e + 1) = (2::real) powi (e + 1)"
    using powr_real_of_int' [of 2 "e + 1"] by simp
  have "2 powr of_int e \<le> \<bar>r\<bar> \<and> \<bar>r\<bar> < 2 powr (of_int e + 1)"
    using assms by (simp only: a b)
  then show ?thesis
    using floor_log_eq_powr_iff [of "\<bar>r\<bar>" 2 e] pos by simp
qed

lemma ulp_exp_eq:
  assumes "2 powi e \<le> \<bar>r\<bar>" "\<bar>r\<bar> < 2 powi (e + 1)"
  shows "ulp_exp r = max e (- 1022) - 52"
  by (simp add: ulp_exp_def log2_floor [OF assms])

text \<open>
  The rounding of a concrete number: \<open>e\<close> is its binary exponent, \<open>q\<close> the exponent of
  its unit in the last place, and \<open>m\<close> the integer nearest to it in that unit (no tie).
\<close>

lemma nearest_eq:
  assumes "2 powi e \<le> \<bar>r\<bar>" "\<bar>r\<bar> < 2 powi (e + 1)" "q = max e (- 1022) - 52"
    and "of_int m - 1 / 2 < r / 2 powi q" "r / 2 powi q < of_int m + 1 / 2"
  shows "nearest r = of_int m * 2 powi q"
proof -
  have "(0::real) < 2 powi e" by simp
  with assms(1) have "0 < \<bar>r\<bar>" by linarith
  then have "r \<noteq> 0" by simp
  moreover have "ulp_exp r = q"
    using ulp_exp_eq [OF assms(1,2)] assms(3) by simp
  ultimately show ?thesis
    by (simp add: nearest_def half_even_eq [OF assms(4,5)])
qed

lemma rnd_eq:
  assumes "2 powi e \<le> \<bar>r\<bar>" "\<bar>r\<bar> < 2 powi (e + 1)" "q = max e (- 1022) - 52"
    and "of_int m - 1 / 2 < r / 2 powi q" "r / 2 powi q < of_int m + 1 / 2"
    and "v = of_int m * 2 powi q" "\<bar>v\<bar> < huge"
  shows "rnd r = Finite v"
proof -
  have "nearest r = v"
    using nearest_eq [OF assms(1-5)] assms(6) by simp
  moreover have "\<not> huge \<le> v" "\<not> v \<le> - huge"
    using assms(7) by linarith+
  ultimately show ?thesis
    by (simp add: rnd_def)
qed

lemma rnd_PosInf:
  assumes "2 powi e \<le> \<bar>r\<bar>" "\<bar>r\<bar> < 2 powi (e + 1)" "q = max e (- 1022) - 52"
    and "of_int m - 1 / 2 < r / 2 powi q" "r / 2 powi q < of_int m + 1 / 2"
    and "huge \<le> of_int m * 2 powi q"
  shows "rnd r = PosInf"
  using nearest_eq [OF assms(1-5)] assms(6) by (simp add: rnd_def)

lemma rnd_0: "rnd 0 = Finite 0"
  by (simp add: rnd_def nearest_def huge_def)

lemma rnd_vals:
  "rnd 1 = Finite 1" "rnd 2 = Finite 2" "rnd 3 = Finite 3" "rnd 4 = Finite 4" "rnd 6 = Finite 6"
  "rnd (- 2) = Finite (- 2)" "rnd (- 4) = Finite (- 4)" "rnd (- 12) = Finite (- 12)"
  "rnd (- 1) = Finite (- 1)" "rnd (- 3) = Finite (- 3)"
            apply (rule rnd_eq [where e = 0 and m = "2 ^ 52" and q = "- 52"]; simp add: huge_def)
           apply (rule rnd_eq [where e = 1 and m = "2 ^ 52" and q = "- 51"]; simp add: huge_def)
          apply (rule rnd_eq [where e = 1 and m = "3 * 2 ^ 51" and q = "- 51"]; simp add: huge_def)
         apply (rule rnd_eq [where e = 2 and m = "2 ^ 52" and q = "- 50"]; simp add: huge_def)
        apply (rule rnd_eq [where e = 2 and m = "3 * 2 ^ 51" and q = "- 50"]; simp add: huge_def)
       apply (rule rnd_eq [where e = 1 and m = "- (2 ^ 52)" and q = "- 51"]; simp add: huge_def)
      apply (rule rnd_eq [where e = 2 and m = "- (2 ^ 52)" and q = "- 50"]; simp add: huge_def)
     apply (rule rnd_eq [where e = 3 and m = "- (3 * 2 ^ 51)" and q = "- 49"]; simp add: huge_def)
    apply (rule rnd_eq [where e = 0 and m = "- (2 ^ 52)" and q = "- 52"]; simp add: huge_def)
  apply (rule rnd_eq [where e = 1 and m = "- (3 * 2 ^ 51)" and q = "- 51"]; simp add: huge_def)
  done

lemma nearest_4: "nearest 4 = 4"
  by (rule nearest_eq [where e = 2 and m = "2 ^ 52" and q = "- 50", THEN trans]) simp_all

lemma not_huge_4: "\<not> huge \<le> 4"
  by (simp add: huge_def)

section \<open>One training step, in double arithmetic\<close>

lemma fstep_Inr:
  assumes "fpow2 (fsub (fadd (fmul (weight s) (x s)) (bias s)) (target s)) = Inr l"
  shows "fstep s = Inr (s\<lparr>output := fadd (fmul (weight s) (x s)) (bias s),
      loss := l,
      losses := losses s @ [l],
      error := fsub (fadd (fmul (weight s) (x s)) (bias s)) (target s),
      grad_weight := fmul (fmul (Finite 2) (fsub (fadd (fmul (weight s) (x s)) (bias s)) (target s))) (x s),
      grad_bias := fmul (Finite 2) (fsub (fadd (fmul (weight s) (x s)) (bias s)) (target s)),
      weight := fsub (weight s) (fmul (learning_rate s)
          (fmul (fmul (Finite 2) (fsub (fadd (fmul (weight s) (x s)) (bias s)) (target s))) (x s))),
      bias := fsub (bias s) (fmul (learning_rate s)
          (fmul (Finite 2) (fsub (fadd (fmul (weight s) (x s)) (bias s)) (target s))))\<rparr>)"
  using assms by (simp add: fstep_def Let_def)

lemma fstep_Inl:
  assumes "fpow2 (fsub (fadd (fmul (weight s) (x s)) (bias s)) (target s)) = Inl e"
  shows "fstep s = Inl e"
  using assms by (simp add: fstep_def Let_def)

lemma fstep_fields:
  assumes "fstep s = Inr s'"
  shows "output s' = fadd (fmul (weight s) (x s)) (bias s)"
    and "fpow2 (fsub (output s') (target s)) = Inr (loss s')"
    and "error s' = fsub (output s') (target s)"
    and "grad_weight s' = fmul (fmul (Finite 2) (error s')) (x s)"
    and "grad_bias s' = fmul (Finite 2) (error s')"
    and "weight s' = fsub (weight s) (fmul (learning_rate s) (grad_weight s'))"
    and "bias s' = fsub (bias s) (fmul (learning_rate s) (grad_bias s'))"
    and "losses s' = losses s @ [loss s']"
    and "x s' = x s" and "target s' = target s" and "learning_rate s' = learning_rate s"
    and "new_output s' = new_output s" and "new_loss s' = new_loss s"
  using assms by (auto simp: fstep_def Let_def split: sum.splits)

lemma fpow2_raises:
  "(fpow2 v = Inl e) = (\<exists>a. v = Finite a \<and> huge \<le> nearest (a\<^sup>2))"
  by (cases v; cases e) auto

lemma fstep_raises:
  "(fstep s = Inl e)
     = (\<exists>a. fsub (fadd (fmul (weight s) (x s)) (bias s)) (target s) = Finite a
            \<and> huge \<le> nearest (a\<^sup>2))"
proof -
  have "(fstep s = Inl e)
      = (fpow2 (fsub (fadd (fmul (weight s) (x s)) (bias s)) (target s)) = Inl e)"
    by (simp add: fstep_def Let_def split: sum.splits)
  then show ?thesis by (simp only: fpow2_raises)
qed

lemma fstep_total: "(\<exists>s'. fstep s = Inr s') \<or> fstep s = Inl OverflowError"
  by (cases "fstep s") (auto intro: py_error.exhaust)

lemma fstep_rate_free:
  "(fstep (s\<lparr>learning_rate := r\<rparr>) = Inl e) = (fstep s = Inl e)"
  by (simp add: fstep_raises)

text \<open>
  A step that returns the weight and bias it was given does so again, from any trace:
  the namespace is a fixed point up to the growing trace.
\<close>

lemma fstep_again:
  assumes "fstep s = Inr s'" "weight s' = weight s" "bias s' = bias s"
  shows "fstep (s'\<lparr>losses := l\<rparr>) = Inr (s'\<lparr>losses := l @ [loss s']\<rparr>)"
proof -
  note f = fstep_fields [OF assms(1)]
  let ?t = "s'\<lparr>losses := l\<rparr>"
  have same: "weight ?t = weight s" "bias ?t = bias s" "x ?t = x s" "target ?t = target s"
    "learning_rate ?t = learning_rate s"
    by (simp_all add: assms(2,3) f)
  have p0: "fpow2 (fsub (fadd (fmul (weight s) (x s)) (bias s)) (target s)) = Inr (loss s')"
    using f(2) by (simp only: f(1))
  have p: "fpow2 (fsub (fadd (fmul (weight ?t) (x ?t)) (bias ?t)) (target ?t)) = Inr (loss s')"
    using p0 by (simp only: same)
  have "fstep ?t = Inr (?t\<lparr>output := output s', loss := loss s', losses := l @ [loss s'],
      error := error s', grad_weight := grad_weight s', grad_bias := grad_bias s',
      weight := weight s', bias := bias s'\<rparr>)"
    using fstep_Inr [OF p] f(3-7) by (simp add: same f(1))
  then show ?thesis by simp
qed

lemma ftrain_fixed:
  assumes "fstep s = Inr s'" "weight s' = weight s" "bias s' = bias s"
  shows "ftrain n (s'\<lparr>losses := l\<rparr>) = Inr (s'\<lparr>losses := l @ replicate n (loss s')\<rparr>)"
proof (induction n arbitrary: l)
  case 0
  show ?case by simp
next
  case (Suc n)
  show ?case
    by (simp add: fstep_again [OF assms] Suc.IH replicate_app_Cons_same)
qed

lemma ftrain_Suc_fixed:
  assumes "fstep s = Inr s'" "weight s' = weight s" "bias s' = bias s"
  shows "ftrain (Suc n) s = Inr (s'\<lparr>losses := losses s @ replicate (Suc n) (loss s')\<rparr>)"
proof -
  have "ftrain (Suc n) s = ftrain n (s'\<lparr>losses := losses s'\<rparr>)"
    by (simp add: assms(1))
  also have "\<dots> = Inr (s'\<lparr>losses := losses s' @ replicate n (loss s')\<rparr>)"
    by (rule ftrain_fixed [OF assms])
  finally show ?thesis
    by (simp add: fstep_fields(8) [OF assms(1)] replicate_app_Cons_same)
qed

text \<open>The step from weight = bias = 1.0, x = 3.0, target = 6.0, for any learning rate.\<close>

lemma sample_ops:
  "fmul (Finite 1) (Finite 3) = Finite 3"
  "fadd (Finite 3) (Finite 1) = Finite 4"
  "fsub (Finite 4) (Finite 6) = Finite (- 2)"
  "fpow2 (Finite (- 2)) = Inr (Finite 4)"
  "fmul (Finite 2) (Finite (- 2)) = Finite (- 4)"
  "fmul (Finite (- 4)) (Finite 3) = Finite (- 12)"
  by (simp_all add: fsub_def rnd_vals nearest_4 not_huge_4)

lemma sample_step:
  "fstep (entry (Finite 1) (Finite 1) (Finite 3) (Finite 6) lr)
     = Inr ((entry (Finite 1) (Finite 1) (Finite 3) (Finite 6) lr)
         \<lparr>output := Finite 4, loss := Finite 4, losses := [Finite 4], error := Finite (- 2),
          grad_weight := Finite (- 12), grad_bias := Finite (- 4),
          weight := fsub (Finite 1) (fmul lr (Finite (- 12))),
          bias := fsub (Finite 1) (fmul lr (Finite (- 4)))\<rparr>)"
proof -
  let ?s = "entry (Finite 1) (Finite 1) (Finite 3) (Finite 6) lr"
  have sel: "weight ?s = Finite 1" "bias ?s = Finite 1" "x ?s = Finite 3" "target ?s = Finite 6"
    "learning_rate ?s = lr" "losses ?s = []"
    by (simp_all add: entry_def)
  have p: "fpow2 (fsub (fadd (fmul (weight ?s) (x ?s)) (bias ?s)) (target ?s)) = Inr (Finite 4)"
    by (simp only: sel sample_ops)
  show ?thesis
    using fstep_Inr [OF p] by (simp only: sel sample_ops append_Nil)
qed


lemma rnd_big: "rnd big = Finite big"
  by (rule rnd_eq [where e = 600 and m = "2 ^ 52" and q = 548]; simp add: big_def huge_def)

lemma nearest_big_sq: "nearest (big\<^sup>2) = big\<^sup>2"
  by (rule nearest_eq [where e = 1200 and m = "2 ^ 52" and q = 1148, THEN trans];
      simp add: big_def)

lemma huge_big_sq: "huge \<le> big\<^sup>2"
  by (simp add: big_def huge_def)

lemma big_ops:
  "fmul (Finite big) (Finite 1) = Finite big"
  "fadd (Finite big) (Finite 0) = Finite big"
  "fsub (Finite big) (Finite 0) = Finite big"
  "fpow2 (Finite big) = Inl OverflowError"
  "fmul (Finite big) (Finite big) = PosInf"
     apply (simp_all add: fsub_def rnd_big nearest_big_sq huge_big_sq)
  apply (rule rnd_PosInf [where e = 1200 and m = "2 ^ 52" and q = 1148];
      simp add: big_def huge_def)
  done




section \<open>A learning rate of zero, in double arithmetic\<close>

lemma fmul_zero: "is_finite g \<Longrightarrow> fmul (Finite 0) g = Finite 0"
  by (cases g) (simp_all add: rnd_0)

lemma fsub_zero: "is_double w \<Longrightarrow> fsub w (Finite 0) = w"
  by (cases w) (simp_all add: fsub_def)

lemma zero_ops:
  "fsub (Finite 1) (fmul (Finite 0) (Finite (- 12))) = Finite 1"
  "fsub (Finite 1) (fmul (Finite 0) (Finite (- 4))) = Finite 1"
  by (simp_all add: fsub_def rnd_vals rnd_0)

text \<open>
  C5, as stated, fails. With learning_rate = 0.0 and the finite doubles
  weight = x = 2^600, bias = target = 0.0, the product weight * x overflows to inf, the
  loss and both gradients are inf, 0.0 * inf is nan, and the step returns weight = nan
  and bias = nan.
\<close>

theorem zero_rate_nan:
  "fstep (entry (Finite big) (Finite 0) (Finite big) (Finite 0) (Finite 0))
     = Inr ((entry (Finite big) (Finite 0) (Finite big) (Finite 0) (Finite 0))
         \<lparr>output := PosInf, loss := PosInf, losses := [PosInf], error := PosInf,
          grad_weight := PosInf, grad_bias := PosInf, weight := NaN, bias := NaN\<rparr>)"
proof -
  let ?s = "entry (Finite big) (Finite 0) (Finite big) (Finite 0) (Finite 0)"
  have sel: "weight ?s = Finite big" "bias ?s = Finite 0" "x ?s = Finite big" "target ?s = Finite 0"
    "learning_rate ?s = Finite 0" "losses ?s = []"
    by (simp_all add: entry_def)
  have pos: "(0::real) < big" by (simp add: big_def)
  have ops: "fadd PosInf (Finite 0) = PosInf" "fsub PosInf (Finite 0) = PosInf"
    "fpow2 PosInf = Inr PosInf" "fmul (Finite 2) PosInf = PosInf"
    "fmul PosInf (Finite big) = PosInf" "fmul (Finite 0) PosInf = NaN"
    "fsub (Finite big) NaN = NaN" "fsub (Finite 0) NaN = NaN"
    using pos by (simp_all add: fsub_def)
  have p: "fpow2 (fsub (fadd (fmul (weight ?s) (x ?s)) (bias ?s)) (target ?s)) = Inr PosInf"
    by (simp only: sel big_ops ops)
  show ?thesis
    using fstep_Inr [OF p] by (simp only: sel big_ops ops append_Nil)
qed

text \<open>
  C5, amended. For all doubles weight, bias, x and target for which a step with
  learning_rate = 0.0 raises no error and computes finite gradients, the step returns
  the weight and bias unchanged; any number of such steps raises no error and leaves the
  weight and bias unchanged, and the loss each of them reports and appends to the trace
  is the loss of the first step.
\<close>

theorem zero_rate_keeps_parameters:
  assumes "learning_rate s = Finite 0" "is_double (weight s)" "is_double (bias s)"
    and "fstep s = Inr s'" "is_finite (grad_weight s')" "is_finite (grad_bias s')"
  shows "weight s' = weight s \<and> bias s' = bias s
    \<and> (\<forall>n. \<exists>t. ftrain (Suc n) s = Inr t \<and> weight t = weight s \<and> bias t = bias s
          \<and> loss t = loss s' \<and> losses t = losses s @ replicate (Suc n) (loss s'))"
proof -
  note f = fstep_fields [OF assms(4)]
  have w: "weight s' = weight s"
    by (simp add: f(6) assms(1) fmul_zero [OF assms(5)] fsub_zero [OF assms(2)])
  have b: "bias s' = bias s"
    by (simp add: f(7) assms(1) fmul_zero [OF assms(6)] fsub_zero [OF assms(3)])
  have "\<exists>t. ftrain (Suc n) s = Inr t \<and> weight t = weight s \<and> bias t = bias s
          \<and> loss t = loss s' \<and> losses t = losses s @ replicate (Suc n) (loss s')" for n
    using ftrain_Suc_fixed [OF assms(4) w b, of n] w b by simp
  with w b show ?thesis by blast
qed

theorem zero_rate_keeps_parameters_witness:
  "learning_rate (entry (Finite 1) (Finite 1) (Finite 3) (Finite 6) (Finite 0)) = Finite 0
   \<and> is_double (Finite 1)
   \<and> fstep (entry (Finite 1) (Finite 1) (Finite 3) (Finite 6) (Finite 0))
     = Inr ((entry (Finite 1) (Finite 1) (Finite 3) (Finite 6) (Finite 0))
         \<lparr>output := Finite 4, loss := Finite 4, losses := [Finite 4], error := Finite (- 2),
          grad_weight := Finite (- 12), grad_bias := Finite (- 4)\<rparr>)
   \<and> is_finite (Finite (- 12)) \<and> is_finite (Finite (- 4))
   \<and> (\<exists>t. ftrain 3 (entry (Finite 1) (Finite 1) (Finite 3) (Finite 6) (Finite 0)) = Inr t
         \<and> weight t = Finite 1 \<and> bias t = Finite 1 \<and> loss t = Finite 4
         \<and> losses t = [Finite 4, Finite 4, Finite 4])"
proof -
  let ?s = "entry (Finite 1) (Finite 1) (Finite 3) (Finite 6) (Finite 0)"
  let ?s' = "?s\<lparr>output := Finite 4, loss := Finite 4, losses := [Finite 4], error := Finite (- 2),
          grad_weight := Finite (- 12), grad_bias := Finite (- 4)\<rparr>"
  have "fstep ?s = Inr (?s\<lparr>output := Finite 4, loss := Finite 4, losses := [Finite 4],
      error := Finite (- 2), grad_weight := Finite (- 12), grad_bias := Finite (- 4),
      weight := Finite 1, bias := Finite 1\<rparr>)"
    using sample_step [of "Finite 0"] by (simp only: zero_ops)
  then have one: "fstep ?s = Inr ?s'"
    by (simp add: entry_def)
  have h: "learning_rate ?s = Finite 0" "is_double (weight ?s)" "is_double (bias ?s)"
    "is_finite (grad_weight ?s')" "is_finite (grad_bias ?s')"
    by (simp_all add: entry_def rnd_vals)
  from zero_rate_keeps_parameters [OF h(1-3) one h(4,5)]
  have "\<exists>t. ftrain (Suc 2) ?s = Inr t \<and> weight t = weight ?s \<and> bias t = bias ?s
      \<and> loss t = loss ?s' \<and> losses t = losses ?s @ replicate (Suc 2) (loss ?s')"
    by blast
  then have "\<exists>t. ftrain 3 ?s = Inr t \<and> weight t = Finite 1 \<and> bias t = Finite 1
      \<and> loss t = Finite 4 \<and> losses t = [Finite 4, Finite 4, Finite 4]"
    by (simp add: entry_def numeral_3_eq_3)
  with one h show ?thesis
    by (simp add: entry_def rnd_vals)
qed

section \<open>Learning rates that are rounded away, and learning rates that overflow\<close>

lemma tiny_mul:
  "fmul (Finite tiny) (Finite (- 12)) = Finite (- 12 * tiny)"
  "fmul (Finite tiny) (Finite (- 4)) = Finite (- 4 * tiny)"
   apply (simp only: fmul.simps)
   apply (rule rnd_eq [where e = "- 1071" and m = "- 12" and q = "- 1074"];
      simp add: tiny_def huge_def power_int_minus field_simps)
  apply (simp only: fmul.simps)
  apply (rule rnd_eq [where e = "- 1072" and m = "- 4" and q = "- 1074"];
      simp add: tiny_def huge_def power_int_minus field_simps)
  done

lemma tiny_sub:
  "fsub (Finite 1) (Finite (- 12 * tiny)) = Finite 1"
  "fsub (Finite 1) (Finite (- 4 * tiny)) = Finite 1"
   apply (simp only: fsub_def fneg.simps fadd.simps)
   apply (rule rnd_eq [where e = 0 and m = "2 ^ 52" and q = "- 52"];
      simp add: tiny_def huge_def power_int_minus field_simps)
  apply (simp only: fsub_def fneg.simps fadd.simps)
  apply (rule rnd_eq [where e = 0 and m = "2 ^ 52" and q = "- 52"];
      simp add: tiny_def huge_def power_int_minus field_simps)
  done

text \<open>
  C4, as stated, fails. With the smallest positive double, 2^-1074, as learning rate and
  weight = bias = 1.0, x = 3.0, target = 6.0, the updates 12 * 2^-1074 and 4 * 2^-1074
  are rounded away: the step returns the weight and bias it was given and reports the
  loss 4.0, so the namespace is a fixed point of the step up to the growing trace, and
  after 100 iterations the trace is 100 times 4.0. No positive double is smaller than
  this learning rate, so no bound on the learning rate excludes it.
\<close>

theorem tiny_rate_stuck:
  "fstep (entry (Finite 1) (Finite 1) (Finite 3) (Finite 6) (Finite tiny))
     = Inr ((entry (Finite 1) (Finite 1) (Finite 3) (Finite 6) (Finite tiny))
         \<lparr>output := Finite 4, loss := Finite 4, losses := [Finite 4], error := Finite (- 2),
          grad_weight := Finite (- 12), grad_bias := Finite (- 4)\<rparr>)
   \<and> ftrain 100 (entry (Finite 1) (Finite 1) (Finite 3) (Finite 6) (Finite tiny))
     = Inr ((entry (Finite 1) (Finite 1) (Finite 3) (Finite 6) (Finite tiny))
         \<lparr>output := Finite 4, loss := Finite 4, losses := replicate 100 (Finite 4),
          error := Finite (- 2), grad_weight := Finite (- 12), grad_bias := Finite (- 4)\<rparr>)"
proof -
  let ?s = "entry (Finite 1) (Finite 1) (Finite 3) (Finite 6) (Finite tiny)"
  let ?s' = "?s\<lparr>output := Finite 4, loss := Finite 4, losses := [Finite 4], error := Finite (- 2),
          grad_weight := Finite (- 12), grad_bias := Finite (- 4)\<rparr>"
  have "fstep ?s = Inr (?s\<lparr>output := Finite 4, loss := Finite 4, losses := [Finite 4],
      error := Finite (- 2), grad_weight := Finite (- 12), grad_bias := Finite (- 4),
      weight := Finite 1, bias := Finite 1\<rparr>)"
    using sample_step [of "Finite tiny"] by (simp only: tiny_mul tiny_sub)
  then have one: "fstep ?s = Inr ?s'"
    by (simp add: entry_def)
  have "ftrain (Suc 99) ?s = Inr (?s'\<lparr>losses := losses ?s @ replicate (Suc 99) (loss ?s')\<rparr>)"
    by (rule ftrain_Suc_fixed [OF one]) (simp_all add: entry_def)
  then have "ftrain 100 ?s = Inr (?s'\<lparr>losses := replicate 100 (Finite 4)\<rparr>)"
    by (simp add: entry_def)
  with one show ?thesis by (simp add: entry_def)
qed

lemma big_rate_mul:
  "fmul (Finite big) (Finite (- 12)) = Finite (- 12 * big)"
  "fmul (Finite big) (Finite (- 4)) = Finite (- 4 * big)"
   apply (simp only: fmul.simps)
   apply (rule rnd_eq [where e = 603 and m = "- (3 * 2 ^ 51)" and q = 551];
      simp add: big_def huge_def)
  apply (simp only: fmul.simps)
  apply (rule rnd_eq [where e = 602 and m = "- (2 ^ 52)" and q = 550];
      simp add: big_def huge_def)
  done

lemma big_rate_sub:
  "fsub (Finite 1) (Finite (- 12 * big)) = Finite (12 * big)"
  "fsub (Finite 1) (Finite (- 4 * big)) = Finite (4 * big)"
   apply (simp only: fsub_def fneg.simps fadd.simps)
   apply (rule rnd_eq [where e = 603 and m = "3 * 2 ^ 51" and q = 551];
      simp add: big_def huge_def field_simps)
  apply (simp only: fsub_def fneg.simps fadd.simps)
  apply (rule rnd_eq [where e = 602 and m = "2 ^ 52" and q = 550];
      simp add: big_def huge_def field_simps)
  done

lemma second_step_ops:
  "fmul (Finite (12 * big)) (Finite 3) = Finite (36 * big)"
  "fadd (Finite (36 * big)) (Finite (4 * big)) = Finite (40 * big)"
  "fsub (Finite (40 * big)) (Finite 6) = Finite (40 * big)"
  "fpow2 (Finite (40 * big)) = Inl OverflowError"
proof -
  show "fmul (Finite (12 * big)) (Finite 3) = Finite (36 * big)"
    apply (simp only: fmul.simps)
    apply (rule rnd_eq [where e = 605 and m = "9 * 2 ^ 49" and q = 553];
        simp add: big_def huge_def)
    done
  show "fadd (Finite (36 * big)) (Finite (4 * big)) = Finite (40 * big)"
    apply (simp only: fadd.simps)
    apply (rule rnd_eq [where e = 605 and m = "5 * 2 ^ 50" and q = 553];
        simp add: big_def huge_def)
    done
  show "fsub (Finite (40 * big)) (Finite 6) = Finite (40 * big)"
    apply (simp only: fsub_def fneg.simps fadd.simps)
    apply (rule rnd_eq [where e = 605 and m = "5 * 2 ^ 50" and q = 553];
        simp add: big_def huge_def field_simps)
    done
  have "nearest ((40 * big)\<^sup>2) = 1600 * 2 ^ 1200"
    by (rule nearest_eq [where e = 1210 and m = "25 * 2 ^ 48" and q = 1158, THEN trans];
        simp add: big_def)
  moreover have "huge \<le> 1600 * 2 ^ 1200"
    by (simp add: huge_def)
  ultimately show "fpow2 (Finite (40 * big)) = Inl OverflowError"
    by (simp only: fpow2.simps if_True)
qed

text \<open>
  C8, as stated, fails. From weight = bias = 1.0, x = 3.0, target = 6.0 with the huge
  learning rate 2^600, the first iteration returns weight = 12 * 2^600 and
  bias = 4 * 2^600, and the second iteration computes output = 40 * 2^600 and raises
  OverflowError at \<^verbatim>\<open>(output - target) ** 2\<close>: the run ends in a raised failure, not in a
  diverging loss.
\<close>

theorem huge_rate_raises:
  "ftrain 2 (entry (Finite 1) (Finite 1) (Finite 3) (Finite 6) (Finite big)) = Inl OverflowError"
proof -
  let ?s = "entry (Finite 1) (Finite 1) (Finite 3) (Finite 6) (Finite big)"
  let ?s1 = "?s\<lparr>output := Finite 4, loss := Finite 4, losses := [Finite 4],
      error := Finite (- 2), grad_weight := Finite (- 12), grad_bias := Finite (- 4),
      weight := Finite (12 * big), bias := Finite (4 * big)\<rparr>"
  have one: "fstep ?s = Inr ?s1"
    using sample_step [of "Finite big"] by (simp only: big_rate_mul big_rate_sub)
  have sel: "weight ?s1 = Finite (12 * big)" "bias ?s1 = Finite (4 * big)"
    "x ?s1 = Finite 3" "target ?s1 = Finite 6"
    by (simp_all add: entry_def)
  have "fpow2 (fsub (fadd (fmul (weight ?s1) (x ?s1)) (bias ?s1)) (target ?s1)) = Inl OverflowError"
    by (simp only: sel second_step_ops)
  then have two: "fstep ?s1 = Inl OverflowError"
    by (rule fstep_Inl)
  have "ftrain 2 ?s = ftrain (Suc (Suc 0)) ?s"
    by (simp add: numeral_2_eq_2)
  also have "\<dots> = Inl OverflowError"
    by (simp only: ftrain.simps one two sum.case)
  finally show ?thesis .
qed

text \<open>
  C8, amended. The step has no validation branch and accepts every learning rate:
  whether it raises does not depend on the learning rate. It either returns or raises
  OverflowError, and it raises exactly when output - target is finite and its square,
  rounded to double, is beyond the double range; overflow in *, + and - raises nothing.
  In exact arithmetic a learning rate that is not positive, or is at least
  1 / (x^2 + 1), makes the loss of the next step at least the loss of this one.
\<close>

theorem step_accepts_any_rate:
  "((fstep (s\<lparr>learning_rate := r\<rparr>) = Inl OverflowError) = (fstep s = Inl OverflowError))
   \<and> ((fstep s = Inl OverflowError)
       = (\<exists>a. fsub (fadd (fmul (weight s) (x s)) (bias s)) (target s) = Finite a
              \<and> huge \<le> nearest (a\<^sup>2)))
   \<and> ((\<exists>s'. fstep s = Inr s') \<or> fstep s = Inl OverflowError)
   \<and> (learning_rate t \<le> 0 \<or> 1 / ((x t)\<^sup>2 + 1) \<le> learning_rate t
        \<longrightarrow> loss (step t) \<le> loss (step (step t)))"
  using fstep_rate_free [where s = s and r = r and e = OverflowError]
    fstep_raises [where s = s and e = OverflowError]
    fstep_total [where s = s] loss_not_reduced [where s = t]
  by blast

theorem step_accepts_any_rate_witness:
  "learning_rate ((loop_entry replay sample_draws)\<lparr>learning_rate := - 1\<rparr>) \<le> 0
   \<and> loss (step ((loop_entry replay sample_draws)\<lparr>learning_rate := - 1\<rparr>))
       \<le> loss (step (step ((loop_entry replay sample_draws)\<lparr>learning_rate := - 1\<rparr>)))
   \<and> fstep ((entry (Finite 1) (Finite 1) (Finite 3) (Finite 6) (Finite (1 / 4)))
         \<lparr>learning_rate := Finite big\<rparr>) \<noteq> Inl OverflowError"
proof -
  let ?t = "(loop_entry replay sample_draws)\<lparr>learning_rate := - 1\<rparr>"
  let ?s = "entry (Finite 1) (Finite 1) (Finite 3) (Finite 6) (Finite (1 / 4))"
  note c = step_accepts_any_rate [where s = ?s and r = "Finite big" and t = ?t]
  have h: "learning_rate ?t \<le> 0" by simp
  with c have l: "loss (step ?t) \<le> loss (step (step ?t))" by blast
  have "fstep ?s \<noteq> Inl OverflowError"
    by (simp add: sample_step)
  with c have "fstep (?s\<lparr>learning_rate := Finite big\<rparr>) \<noteq> Inl OverflowError" by blast
  with h l show ?thesis by blast
qed

end
